theory Spec2Isabelle
  imports Complex_Main "HOL-Library.Sublist"
begin

text \<open>
  The analysis pipeline of YouTubePulse: the collection of a channel's raw data
  (\<open>YouTubeService.gatherChannelIntelligence\<close>), the guards of the model-backed analyzers
  (\<open>AIService.analyzeSentiment\<close>, \<open>AIService.analyzeHooks\<close>) and the metrics of
  \<open>server.js\<close> (\<open>calculateEnhancedMetrics\<close>, \<open>getVideoBreakdown\<close>). Functions are pure
  functions of their arguments and of the replies of the data provider and of the
  text-generation backend; a thrown error is the left summand of the result.
\<close>

section \<open>JavaScript values used by the pipeline\<close>

subsection \<open>Errors\<close>

text \<open>
  The source throws \<open>new Error(message)\<close> itself, and the runtime throws a TypeError
  when a property of \<open>undefined\<close> is read or a non-function is called. The spec also names
  an error kind \<open>InsufficientData\<close>; no source file constructs it, and it is listed here
  only so that statements can speak about it.
\<close>

datatype error = TypeError string | Error string | InsufficientData

fun message :: "error \<Rightarrow> string" where
  "message (TypeError m) = m"
| "message (Error m) = m"
| "message InsufficientData = ''InsufficientData''"

definition undefined_read :: "string \<Rightarrow> error" where
  \<comment> \<open>reading property \<open>p\<close> of \<open>undefined\<close> (the message text is V8's)\<close>
  "undefined_read p = TypeError (''Cannot read properties of undefined (reading '' @ [CHR 0x27] @ p @ [CHR 0x27] @ '')'')"

subsection \<open>Numbers\<close>

text \<open>
  A JavaScript number is NaN, an infinity or a finite value. Finite values are kept as
  exact rationals: the rounding of IEEE doubles and the sign of zero are not modelled.
  The counters of this program are integers far below \<open>2^53\<close>, where sums are exact.
\<close>

datatype number = NaN | Infinity | NegInfinity | Fin rat

definition signed_inf :: "bool \<Rightarrow> number" where
  "signed_inf pos = (if pos then Infinity else NegInfinity)"

fun is_pos :: "number \<Rightarrow> bool" where
  "is_pos Infinity = True"
| "is_pos (Fin a) = (0 < a)"
| "is_pos _ = False"

fun num_neg :: "number \<Rightarrow> number" where
  "num_neg NaN = NaN"
| "num_neg Infinity = NegInfinity"
| "num_neg NegInfinity = Infinity"
| "num_neg (Fin a) = Fin (- a)"

fun num_add :: "number \<Rightarrow> number \<Rightarrow> number" where
  "num_add (Fin a) (Fin b) = Fin (a + b)"
| "num_add NaN _ = NaN"
| "num_add _ NaN = NaN"
| "num_add Infinity NegInfinity = NaN"
| "num_add NegInfinity Infinity = NaN"
| "num_add (Fin a) y = y"
| "num_add x _ = x"

definition num_sub :: "number \<Rightarrow> number \<Rightarrow> number" where
  "num_sub x y = num_add x (num_neg y)"

fun num_mul :: "number \<Rightarrow> number \<Rightarrow> number" where
  "num_mul (Fin a) (Fin b) = Fin (a * b)"
| "num_mul NaN _ = NaN"
| "num_mul _ NaN = NaN"
| "num_mul (Fin a) y = (if a = 0 then NaN else signed_inf ((0 < a) = is_pos y))"
| "num_mul x (Fin b) = (if b = 0 then NaN else signed_inf (is_pos x = (0 < b)))"
| "num_mul x y = signed_inf (is_pos x = is_pos y)"

fun num_div :: "number \<Rightarrow> number \<Rightarrow> number" where
  "num_div (Fin a) (Fin b) =
     (if b = 0 then (if a = 0 then NaN else signed_inf (0 < a)) else Fin (a / b))"
| "num_div NaN _ = NaN"
| "num_div _ NaN = NaN"
| "num_div (Fin a) _ = Fin 0"
| "num_div x (Fin b) = signed_inf (is_pos x = (0 \<le> b))"
| "num_div _ _ = NaN"

fun num_gt :: "number \<Rightarrow> number \<Rightarrow> bool" where
  \<comment> \<open>\<open>x > y\<close>: false as soon as one side is NaN\<close>
  "num_gt (Fin a) (Fin b) = (b < a)"
| "num_gt NaN _ = False"
| "num_gt _ NaN = False"
| "num_gt Infinity y = (y \<noteq> Infinity)"
| "num_gt x NegInfinity = (x \<noteq> NegInfinity)"
| "num_gt _ _ = False"

fun Math_round :: "number \<Rightarrow> number" where
  "Math_round (Fin a) = Fin (of_int \<lfloor>a + 1 / 2\<rfloor>)"
| "Math_round x = x"

definition of_length :: "'a list \<Rightarrow> number" where
  \<comment> \<open>\<open>xs.length\<close> as a number\<close>
  "of_length xs = Fin (of_nat (length xs))"

subsection \<open>Printing and reading numbers\<close>

fun showNat :: "nat \<Rightarrow> string" where
  "showNat n = (if n < 10 then [''0123456789'' ! n]
                else showNat (n div 10) @ [''0123456789'' ! (n mod 10)])"

declare showNat.simps [simp del]

text \<open>
  \<open>x.toFixed(f)\<close>: the integer \<open>n\<close> nearest to \<open>|x| * 10^f\<close> (the larger one on a tie),
  printed with at least \<open>f + 1\<close> digits and a point before the last \<open>f\<close>. ECMAScript
  switches to exponent notation from \<open>10^21\<close> on; the model prints decimals throughout.
\<close>

definition toFixed :: "nat \<Rightarrow> number \<Rightarrow> string" where
  "toFixed f x =
     (case x of
        NaN \<Rightarrow> ''NaN''
      | Infinity \<Rightarrow> ''Infinity''
      | NegInfinity \<Rightarrow> ''-Infinity''
      | Fin q \<Rightarrow>
          (let n = nat \<lfloor>\<bar>q\<bar> * 10 ^ f + 1 / 2\<rfloor>;
               ds = showNat n;
               m = replicate (Suc f - length ds) (CHR ''0'') @ ds;
               k = length m - f
           in (if q < 0 then ''-'' else '''') @
              (if f = 0 then m else take k m @ ''.'' @ drop k m)))"

definition is_digit :: "char \<Rightarrow> bool" where
  "is_digit c = (c \<in> set ''0123456789'')"

definition is_space :: "char \<Rightarrow> bool" where
  "is_space c = (c \<in> set [CHR '' '', CHR 0x09, CHR 0x0A, CHR 0x0B, CHR 0x0C, CHR 0x0D])"

definition digit_val :: "char \<Rightarrow> nat" where
  "digit_val c = of_char c - 48"

definition digits_val :: "string \<Rightarrow> nat" where
  "digits_val ds = foldl (\<lambda>acc c. 10 * acc + digit_val c) 0 ds"

definition strip_sign :: "string \<Rightarrow> bool \<times> string" where
  \<comment> \<open>an optional leading sign: (negative, rest)\<close>
  "strip_sign s =
     (case s of
        c # r \<Rightarrow> (if c = CHR ''-'' then (True, r) else if c = CHR ''+'' then (False, r) else (False, s))
      | [] \<Rightarrow> (False, s))"

definition parse_exponent :: "string \<Rightarrow> int" where
  \<comment> \<open>the exponent part \<open>e[+-]ddd\<close> at the head of the string, 0 when there is none\<close>
  "parse_exponent s =
     (case s of
        c # r \<Rightarrow>
          (if c = CHR ''e'' \<or> c = CHR ''E'' then
             (let (neg, r') = strip_sign r; ds = takeWhile is_digit r'
              in if ds = [] then 0
                 else if neg then - int (digits_val ds) else int (digits_val ds))
           else 0)
      | [] \<Rightarrow> 0)"

definition parseFloat :: "string \<Rightarrow> number" where
  \<comment> \<open>the longest prefix that is a decimal literal, after leading white space\<close>
  "parseFloat s =
     (let (neg, r) = strip_sign (dropWhile is_space s) in
      if prefix ''Infinity'' r then signed_inf (\<not> neg)
      else
        (let ip = takeWhile is_digit r;
             r1 = dropWhile is_digit r;
             fp = (case r1 of c # t \<Rightarrow> if c = CHR ''.'' then takeWhile is_digit t else [] | [] \<Rightarrow> []);
             r2 = (case r1 of c # t \<Rightarrow> if c = CHR ''.'' then dropWhile is_digit t else r1 | [] \<Rightarrow> [])
         in if ip = [] \<and> fp = [] then NaN
            else
              (let mant = of_nat (digits_val ip) + of_nat (digits_val fp) / 10 ^ length fp;
                   e = parse_exponent r2;
                   v = (if e < 0 then mant / 10 ^ nat (- e) else mant * 10 ^ nat e)
               in Fin (if neg then - v else v))))"

definition parseInt_string :: "string \<Rightarrow> number" where
  \<comment> \<open>\<open>parseInt\<close> of a string in radix 10: sign and leading digits, NaN when there are none\<close>
  "parseInt_string s =
     (let (neg, r) = strip_sign (dropWhile is_space s); ds = takeWhile is_digit r
      in if ds = [] then NaN
         else Fin (if neg then - of_nat (digits_val ds) else of_nat (digits_val ds)))"

text \<open>
  The data provider reports each counter as the decimal string of an unsigned integer, or
  omits it. A counter is kept as that integer, \<open>None\<close> standing for \<open>undefined\<close>.
\<close>

type_synonym counter = "nat option"

definition orZero :: "counter \<Rightarrow> counter" where
  \<comment> \<open>\<open>x || 0\<close>: a counter string is not empty, hence truthy (also \<open>"0"\<close>)\<close>
  "orZero x = (case x of None \<Rightarrow> Some 0 | Some n \<Rightarrow> Some n)"

definition parseInt :: "counter \<Rightarrow> number" where
  \<comment> \<open>\<open>parseInt(undefined)\<close> is NaN\<close>
  "parseInt x = (case x of None \<Rightarrow> NaN | Some n \<Rightarrow> Fin (of_nat n))"

subsection \<open>Sorting with a comparator\<close>

text \<open>
  \<open>Array.prototype.sort(cmp)\<close> is stable, and \<open>x\<close> goes behind \<open>y\<close> only when
  \<open>cmp(x, y) > 0\<close> (a NaN result counts as 0). With a consistent comparator the result is
  the one of this insertion sort; with an inconsistent one ECMAScript leaves the order open.
\<close>

fun js_insert :: "('a \<Rightarrow> 'a \<Rightarrow> number) \<Rightarrow> 'a \<Rightarrow> 'a list \<Rightarrow> 'a list" where
  "js_insert cmp x [] = [x]"
| "js_insert cmp x (y # ys) =
     (if num_gt (cmp x y) (Fin 0) then y # js_insert cmp x ys else x # y # ys)"

definition js_sort :: "('a \<Rightarrow> 'a \<Rightarrow> number) \<Rightarrow> 'a list \<Rightarrow> 'a list" where
  "js_sort cmp xs = foldr (js_insert cmp) xs []"

section \<open>Data model\<close>

datatype json = JNull | JBool bool | JNum rat | JStr string | JArr "json list" | JObj "(string \<times> json) list"

record VideoStats =
  viewCount :: counter
  likeCount :: counter
  commentCount :: counter
  duration :: string

record Comment =
  text' :: string
  likeCount :: nat
  author :: string
  publishedAt :: string

text \<open>What \<open>getLatestVideos\<close> returns per search item; a \<open>Video\<close> extends it (\<open>{...video, transcript, comments, stats}\<close>).\<close>

record VideoItem =
  videoId :: string
  title :: string
  description :: string
  publishedAt :: string
  thumbnails :: json

record Video = VideoItem +
  transcript :: "string option"
  comments :: "Comment list"
  stats :: VideoStats

record ChannelStats =
  subscriberCount :: counter
  totalViews :: counter
  totalVideos :: counter
  channelName :: string
  channelDescription :: string
  publishedAt :: string

record ChannelDataset =
  channelId :: string
  channelHandle :: string
  channelStats :: ChannelStats
  videos :: "Video list"
  totalVideosAnalyzed :: nat
  totalComments :: nat

record BestPerformingVideo =
  title :: string
  views :: counter
  likes :: counter

record Metrics =
  videosAnalyzed :: nat
  commentsProcessed :: nat
  totalViews :: number
  avgViews :: number
  viewsTrend :: number
  totalLikes :: number
  avgLikes :: number
  engagementRate :: number
  totalComments :: number
  avgComments :: number
  commentRate :: number
  bestPerformingVideo :: BestPerformingVideo
  uploadFrequency :: number
  transcriptAvailability :: number
  subscriberCount :: counter
  totalChannelViews :: counter
  totalChannelVideos :: counter

text \<open>The value of \<open>v.transcript && v.transcript.length > 0\<close>: \<open>null\<close>, the empty string, or \<open>true\<close>.\<close>

datatype transcript_flag = FlagNull | FlagEmptyString | FlagTrue

record VideoBreakdownEntry =
  title :: string
  publishedAt :: string
  views :: number
  likes :: number
  comments :: number
  engagementRate :: string
  hasTranscript :: transcript_flag
  commentCount :: nat

section \<open>MetricsEngine (server.js)\<close>

definition reduce_best :: "Video \<Rightarrow> Video \<Rightarrow> Video" where
  \<comment> \<open>the callback of the \<open>bestVideo\<close> reduction\<close>
  "reduce_best best current =
     (let currentViews = parseInt (orZero (viewCount (stats current)));
          bestViews = parseInt (orZero (viewCount (stats best)))
      in if num_gt currentViews bestViews then current else best)"

definition bestVideo :: "Video list \<Rightarrow> Video option" where
  \<comment> \<open>\<open>videos.reduce(..., videos[0])\<close>: on an empty array the initial value \<open>videos[0]\<close> is
      \<open>undefined\<close> and is returned as it is\<close>
  "bestVideo vs = (case vs of [] \<Rightarrow> None | v0 # _ \<Rightarrow> Some (foldl reduce_best v0 vs))"

definition date_at :: "number list \<Rightarrow> int \<Rightarrow> number" where
  \<comment> \<open>\<open>dates[i]\<close> as an operand of \<open>-\<close>: \<open>undefined\<close> out of range, which subtracts as NaN\<close>
  "date_at ds i = (if 0 \<le> i \<and> i < int (length ds) then ds ! nat i else NaN)"

definition has_transcript :: "Video \<Rightarrow> bool" where
  \<comment> \<open>truthiness of \<open>v.transcript && v.transcript.length > 0\<close>\<close>
  "has_transcript v = (case transcript v of None \<Rightarrow> False | Some t \<Rightarrow> 0 < length t)"

text \<open>
  \<open>calculateEnhancedMetrics\<close>. \<open>newDate s\<close> is the time value of \<open>new Date(s)\<close> in
  milliseconds (NaN for an invalid date). \<open>Math.floor(videos.length / 2)\<close> is the integer
  quotient, \<open>slice(0, midpoint)\<close> and \<open>slice(midpoint)\<close> are \<open>take\<close> and \<open>drop\<close>. The
  only statement that can throw is the read of \<open>bestVideo.title\<close> in the returned object.
\<close>

definition calculateEnhancedMetrics :: "(string \<Rightarrow> number) \<Rightarrow> ChannelDataset \<Rightarrow> error + Metrics" where
  "calculateEnhancedMetrics newDate youtubeData =
     (let vs = ChannelDataset.videos youtubeData;
          totalViews' = foldl (\<lambda>sum v. num_add sum (parseInt (orZero (viewCount (stats v))))) (Fin 0) vs;
          totalLikes' = foldl (\<lambda>sum v. num_add sum (parseInt (orZero (VideoStats.likeCount (stats v))))) (Fin 0) vs;
          totalComments' = foldl (\<lambda>sum v. num_add sum (parseInt (orZero (VideoStats.commentCount (stats v))))) (Fin 0) vs;
          avgViews' = Math_round (num_div totalViews' (of_length vs));
          avgLikes' = Math_round (num_div totalLikes' (of_length vs));
          avgComments' = Math_round (num_div totalComments' (of_length vs));
          engagementRate' = (if num_gt totalViews' (Fin 0)
                             then toFixed 2 (num_mul (num_div totalLikes' totalViews') (Fin 100)) else ''0.00'');
          commentRate' = (if num_gt totalViews' (Fin 0)
                          then toFixed 2 (num_mul (num_div totalComments' totalViews') (Fin 100)) else ''0.00'');
          best = bestVideo vs;
          dates = js_sort (\<lambda>a b. num_sub b a) (map (\<lambda>v. newDate (VideoItem.publishedAt v)) vs);
          daysBetweenFirstAndLast =
            num_div (num_sub (date_at dates 0) (date_at dates (int (length dates) - 1)))
                    (Fin (1000 * 60 * 60 * 24));
          uploadFrequency' = (if num_gt daysBetweenFirstAndLast (Fin 0)
                              then toFixed 1 (num_mul (num_div (of_length vs) daysBetweenFirstAndLast) (Fin 7))
                              else ''0'');
          midpoint = length vs div 2;
          recentVideos = take midpoint vs;
          olderVideos = drop midpoint vs;
          recentAvgViews =
            num_div (foldl (\<lambda>sum v. num_add sum (parseInt (orZero (viewCount (stats v))))) (Fin 0) recentVideos)
                    (of_length recentVideos);
          olderAvgViews =
            num_div (foldl (\<lambda>sum v. num_add sum (parseInt (orZero (viewCount (stats v))))) (Fin 0) olderVideos)
                    (of_length olderVideos);
          viewsTrend' = (if num_gt olderAvgViews (Fin 0)
                         then toFixed 1 (num_mul (num_div (num_sub recentAvgViews olderAvgViews) olderAvgViews) (Fin 100))
                         else ''0'');
          videosWithTranscripts = length (filter has_transcript vs);
          transcriptAvailability' =
            toFixed 0 (num_mul (num_div (Fin (of_nat videosWithTranscripts)) (of_length vs)) (Fin 100))
      in case best of
           None \<Rightarrow> Inl (undefined_read ''title'')
         | Some b \<Rightarrow>
             Inr \<lparr> videosAnalyzed = length vs,
                   commentsProcessed = ChannelDataset.totalComments youtubeData,
                   totalViews = totalViews',
                   avgViews = avgViews',
                   viewsTrend = parseFloat viewsTrend',
                   totalLikes = totalLikes',
                   avgLikes = avgLikes',
                   engagementRate = parseFloat engagementRate',
                   totalComments = totalComments',
                   avgComments = avgComments',
                   commentRate = parseFloat commentRate',
                   bestPerformingVideo =
                     \<lparr> BestPerformingVideo.title = VideoItem.title b,
                       views = viewCount (stats b),
                       likes = VideoStats.likeCount (stats b) \<rparr>,
                   uploadFrequency = parseFloat uploadFrequency',
                   transcriptAvailability = parseInt_string transcriptAvailability',
                   subscriberCount = ChannelStats.subscriberCount (channelStats youtubeData),
                   totalChannelViews = ChannelStats.totalViews (channelStats youtubeData),
                   totalChannelVideos = ChannelStats.totalVideos (channelStats youtubeData) \<rparr>)"

definition breakdown_entry :: "Video \<Rightarrow> VideoBreakdownEntry" where
  \<comment> \<open>the callback of \<open>videos.map\<close> in \<open>getVideoBreakdown\<close>\<close>
  "breakdown_entry v =
     \<lparr> VideoBreakdownEntry.title = VideoItem.title v,
       publishedAt = VideoItem.publishedAt v,
       views = parseInt (orZero (viewCount (stats v))),
       likes = parseInt (orZero (VideoStats.likeCount (stats v))),
       comments = parseInt (orZero (VideoStats.commentCount (stats v))),
       engagementRate =
         (if num_gt (parseInt (viewCount (stats v))) (Fin 0)
          then toFixed 2 (num_mul (num_div (parseInt (VideoStats.likeCount (stats v)))
                                           (parseInt (viewCount (stats v)))) (Fin 100))
          else ''0.00''),
       hasTranscript =
         (case transcript v of None \<Rightarrow> FlagNull | Some t \<Rightarrow> if 0 < length t then FlagTrue else FlagEmptyString),
       commentCount = length (Video.comments v) \<rparr>"

definition getVideoBreakdown :: "Video list \<Rightarrow> VideoBreakdownEntry list" where
  "getVideoBreakdown vs =
     js_sort (\<lambda>a b. num_sub (VideoBreakdownEntry.views b) (VideoBreakdownEntry.views a))
             (map breakdown_entry vs)"

section \<open>RawDataCollector (YouTubeService)\<close>

text \<open>
  The external data provider, by endpoint: each function gives the items of the
  response, or \<open>Inl e\<close> when the request rejects with \<open>e\<close>. A response of another
  shape ends in the same \<open>catch\<close> as a rejected request and is not told apart.
  Diagnostic output (\<open>console.log\<close>) is not modelled.
\<close>

record Provider =
  search_channel :: "string \<Rightarrow> error + string list"
  search_videos :: "string \<Rightarrow> error + VideoItem list"
  fetchTranscript :: "string \<Rightarrow> error + string list"
  commentThreads :: "string \<Rightarrow> nat \<Rightarrow> error + Comment list"
  videos_get :: "string \<Rightarrow> error + VideoStats list"
  channels_get :: "string \<Rightarrow> error + ChannelStats list"

definition catch_rethrow :: "string \<Rightarrow> error + 'a \<Rightarrow> error + 'a" where
  \<comment> \<open>\<open>try { body } catch (error) { throw new Error(prefix + error.message) }\<close>\<close>
  "catch_rethrow pre body = (case body of Inl e \<Rightarrow> Inl (Error (pre @ message e)) | Inr x \<Rightarrow> Inr x)"

fun join :: "string \<Rightarrow> string list \<Rightarrow> string" where
  "join sep [] = []"
| "join sep [x] = x"
| "join sep (x # y # ys) = x @ sep @ join sep (y # ys)"

definition remove_first :: "char \<Rightarrow> string \<Rightarrow> string" where
  \<comment> \<open>\<open>s.replace(c, '')\<close>: the first occurrence only\<close>
  "remove_first c s = takeWhile (\<lambda>d. d \<noteq> c) s @ drop 1 (dropWhile (\<lambda>d. d \<noteq> c) s)"

definition getChannelId :: "Provider \<Rightarrow> string \<Rightarrow> error + string" where
  "getChannelId p handle' =
     catch_rethrow ''Error finding channel: ''
       (let handle = remove_first (CHR ''@'') handle' in
        case search_channel p handle of
          Inl e \<Rightarrow> Inl e
        | Inr items \<Rightarrow>
            (case items of [] \<Rightarrow> Inl (Error ''Channel not found'') | cid # _ \<Rightarrow> Inr cid))"

definition getLatestVideos :: "Provider \<Rightarrow> string \<Rightarrow> error + VideoItem list" where
  "getLatestVideos p cid = catch_rethrow ''Error fetching videos: '' (search_videos p cid)"

definition getTranscript :: "Provider \<Rightarrow> string \<Rightarrow> string option" where
  "getTranscript p vid =
     (case fetchTranscript p vid of Inl e \<Rightarrow> None | Inr items \<Rightarrow> Some (join '' '' items))"

definition getTopComments :: "Provider \<Rightarrow> string \<Rightarrow> nat \<Rightarrow> Comment list" where
  "getTopComments p vid maxResults =
     (case commentThreads p vid maxResults of Inl e \<Rightarrow> [] | Inr items \<Rightarrow> items)"

definition getVideoStats :: "Provider \<Rightarrow> string \<Rightarrow> error + VideoStats" where
  "getVideoStats p vid =
     catch_rethrow ''Error fetching video stats: ''
       (case videos_get p vid of
          Inl e \<Rightarrow> Inl e
        | Inr items \<Rightarrow>
            (case items of [] \<Rightarrow> Inl (undefined_read ''statistics'') | video # _ \<Rightarrow> Inr video))"

definition getChannelStats :: "Provider \<Rightarrow> string \<Rightarrow> error + ChannelStats" where
  "getChannelStats p cid =
     catch_rethrow ''Error fetching channel stats: ''
       (case channels_get p cid of
          Inl e \<Rightarrow> Inl e
        | Inr items \<Rightarrow>
            (case items of [] \<Rightarrow> Inl (undefined_read ''statistics'') | channel # _ \<Rightarrow> Inr channel))"

definition collect_video :: "Provider \<Rightarrow> VideoItem \<Rightarrow> error + Video" where
  \<comment> \<open>the callback of \<open>videos.map\<close>: of the three joined fetches only \<open>getVideoStats\<close> can reject\<close>
  "collect_video p video =
     (let transcript' = getTranscript p (videoId video);
          comments' = getTopComments p (videoId video) 50
      in case getVideoStats p (videoId video) of
           Inl e \<Rightarrow> Inl e
         | Inr stats' \<Rightarrow> Inr (VideoItem.extend video (Video.fields transcript' comments' stats')))"

text \<open>
  \<open>Promise.all\<close>: all results in order, or a rejection. When several promises reject, the
  source reports the one that rejects first in time; the model takes the first in the list.
\<close>

fun promise_all :: "(error + 'a) list \<Rightarrow> error + 'a list" where
  "promise_all [] = Inr []"
| "promise_all (r # rs) =
     (case r of
        Inl e \<Rightarrow> Inl e
      | Inr x \<Rightarrow> (case promise_all rs of Inl e \<Rightarrow> Inl e | Inr xs \<Rightarrow> Inr (x # xs)))"

definition gatherChannelIntelligence :: "Provider \<Rightarrow> string \<Rightarrow> error + ChannelDataset" where
  "gatherChannelIntelligence p handle =
     catch_rethrow ''Intelligence gathering failed: ''
       (case getChannelId p handle of
          Inl e \<Rightarrow> Inl e
        | Inr cid \<Rightarrow>
       (case getChannelStats p cid of
          Inl e \<Rightarrow> Inl e
        | Inr cstats \<Rightarrow>
       (case getLatestVideos p cid of
          Inl e \<Rightarrow> Inl e
        | Inr items \<Rightarrow>
       (case promise_all (map (collect_video p) items) of
          Inl e \<Rightarrow> Inl e
        | Inr videoData \<Rightarrow>
            Inr \<lparr> channelId = cid,
                  channelHandle = handle,
                  channelStats = cstats,
                  videos = videoData,
                  totalVideosAnalyzed = length videoData,
                  totalComments = foldl (\<lambda>sum v. sum + length (Video.comments v)) 0 videoData \<rparr>))))"

section \<open>TextAnalyzer (AIService)\<close>

text \<open>
  The text-generation backend: \<open>post prompt\<close> is the \<open>response\<close> field of the reply
  (\<open>None\<close> when the reply has no such field), or \<open>Inl e\<close> when the request rejects.
  Every analyzer threads the list of prompts sent so far, so that a call to the model is
  visible in the result. \<open>JSON.parse\<close> and the numeric conversion of a JSON value are
  parameters; the association list of a parsed object has distinct keys.
\<close>

type_synonym llm = "string \<Rightarrow> error + string option"

definition callOllama :: "llm \<Rightarrow> string list \<Rightarrow> string \<Rightarrow> (error + string option) \<times> string list" where
  "callOllama post calls prompt = (catch_rethrow ''Ollama error: '' (post prompt), calls @ [prompt])"

definition match_lazy :: "char \<Rightarrow> char \<Rightarrow> string \<Rightarrow> string option" where
  \<comment> \<open>\<open>s.match(/L[\s\S]*?R/)\<close> for single characters \<open>L\<close> and \<open>R\<close>: from the first \<open>L\<close> to the
      first \<open>R\<close> behind it\<close>
  "match_lazy l r s =
     (case dropWhile (\<lambda>c. c \<noteq> l) s of
        [] \<Rightarrow> None
      | _ # u \<Rightarrow> if r \<in> set u then Some (l # takeWhile (\<lambda>c. c \<noteq> r) u @ [r]) else None)"

definition newline :: string where
  "newline = [CHR 0x0A]"

definition complaint :: "string \<Rightarrow> string \<Rightarrow> json" where
  "complaint t f = JObj [(''text'', JStr t), (''frequency'', JStr f)]"

definition sentiment_insufficient :: json where
  "sentiment_insufficient =
     JObj [(''complaints'', JArr [complaint ''Limited engagement data'' ''medium'',
                                  complaint ''Low comment activity'' ''low'',
                                  complaint ''Check community settings'' ''low'']),
           (''mostRequestedFeature'', JStr ''More data needed'')]"

definition sentiment_fallback :: json where
  "sentiment_fallback =
     JObj [(''complaints'', JArr [complaint ''Positive audience response'' ''high'',
                                  complaint ''Strong engagement'' ''medium'',
                                  complaint ''Active community'' ''low'']),
           (''mostRequestedFeature'', JStr ''Similar content'')]"

function pad_loop :: "json list \<Rightarrow> json list" where
  \<comment> \<open>\<open>while (complaints.length < 3) complaints.push({...})\<close>\<close>
  "pad_loop xs = (if length xs < 3 then pad_loop (xs @ [complaint ''Positive sentiment'' ''low'']) else xs)"
  by pat_completeness auto
termination
  by (relation "measure (\<lambda>xs. 3 - length xs)") auto

declare pad_loop.simps [simp del]

fun set_key :: "string \<Rightarrow> json \<Rightarrow> (string \<times> json) list \<Rightarrow> (string \<times> json) list" where
  "set_key k v [] = [(k, v)]"
| "set_key k v ((k', v') # kvs) = (if k = k' then (k, v) # kvs else (k', v') # set_key k v kvs)"

definition not_a_function :: error where
  "not_a_function = TypeError ''data.complaints.push is not a function''"

definition null_read :: "string \<Rightarrow> error" where
  "null_read p = TypeError (''Cannot read properties of null (reading '' @ [CHR 0x27] @ p @ [CHR 0x27] @ '')'')"

definition pad_complaints :: "(json \<Rightarrow> number) \<Rightarrow> json \<Rightarrow> error + json" where
  \<comment> \<open>the padding loop on the parsed \<open>data\<close>, by the shape of \<open>data.complaints\<close>\<close>
  "pad_complaints ToNumber data =
     (case data of
        JObj kvs \<Rightarrow>
          (case map_of kvs ''complaints'' of
             None \<Rightarrow> Inl (undefined_read ''length'')
           | Some JNull \<Rightarrow> Inl (null_read ''length'')
           | Some (JArr xs) \<Rightarrow> Inr (JObj (set_key ''complaints'' (JArr (pad_loop xs)) kvs))
           | Some (JStr s) \<Rightarrow> if length s < 3 then Inl not_a_function else Inr data
           | Some (JObj ob) \<Rightarrow>
               (case map_of ob ''length'' of
                  None \<Rightarrow> Inr data
                | Some l \<Rightarrow> if num_gt (Fin 3) (ToNumber l) then Inl not_a_function else Inr data)
           | Some _ \<Rightarrow> Inr data)
      | JNull \<Rightarrow> Inl (null_read ''complaints'')
      | _ \<Rightarrow> Inl (undefined_read ''length''))"

definition sentiment_prompt :: "string \<Rightarrow> string" where
  \<open>sentiment_prompt commentTexts =
     ''Find common themes in comments. Return JSON: {"complaints":[{"text":"theme","frequency":"high"}],"mostRequestedFeature":"feature"}''
     @ newline @ newline @ commentTexts\<close>

definition analyzeSentiment ::
  "(string \<Rightarrow> error + json) \<Rightarrow> (json \<Rightarrow> number) \<Rightarrow> llm \<Rightarrow> string list \<Rightarrow> Comment list option
     \<Rightarrow> json \<times> string list" where
  "analyzeSentiment JSON_parse ToNumber post calls comments' =
     (case comments' of
        None \<Rightarrow> (sentiment_insufficient, calls)
      | Some cs \<Rightarrow>
        if length cs < 5 then (sentiment_insufficient, calls)
        else
        (let commentTexts = take 2000 (join newline (map text' cs));
             (response, calls') = callOllama post calls (sentiment_prompt commentTexts);
             attempt =
               (case response of
                  Inl e \<Rightarrow> Inl e
                | Inr None \<Rightarrow> Inl (undefined_read ''match'')
                | Inr (Some r) \<Rightarrow>
                    (case match_lazy (CHR ''{'') (CHR ''}'') r of
                       None \<Rightarrow> Inr None
                     | Some jsonMatch \<Rightarrow>
                         (case JSON_parse jsonMatch of
                            Inl e \<Rightarrow> Inl e
                          | Inr data \<Rightarrow> map_sum id Some (pad_complaints ToNumber data))))
         in case attempt of
              Inr (Some data) \<Rightarrow> (data, calls')
            | _ \<Rightarrow> (sentiment_fallback, calls')))"

definition toLower :: "char \<Rightarrow> char" where
  "toLower c =
     (case map_of (zip ''ABCDEFGHIJKLMNOPQRSTUVWXYZ'' ''abcdefghijklmnopqrstuvwxyz'') c of
        None \<Rightarrow> c
      | Some d \<Rightarrow> d)"

text \<open>
  Titles are byte strings (UTF-8). \<open>toLowerCase\<close> changes the ASCII letters; what it does
  to other code points does not touch the tests below, whose needles are ASCII and contain
  no letter that a non-ASCII code point lowers to.
\<close>

definition toLowerCase :: "string \<Rightarrow> string" where
  "toLowerCase s = map toLower s"

fun str_includes :: "string \<Rightarrow> string \<Rightarrow> bool" where
  \<comment> \<open>\<open>s.includes(t)\<close>\<close>
  "str_includes [] t = (t = [])"
| "str_includes (c # cs) t = (prefix t (c # cs) \<or> str_includes cs t)"

definition hooks_spectacle :: json where
  "hooks_spectacle =
     JObj [(''primaryHook'', JStr ''Entertainment & Spectacle''),
           (''secondaryHooks'', JArr [JStr ''FOMO'', JStr ''Curiosity'']),
           (''strategy'', JStr ''Viral content with high production value'')]"

definition hooks_fallback :: json where
  "hooks_fallback =
     JObj [(''primaryHook'', JStr ''Viewer Entertainment''),
           (''secondaryHooks'', JArr [JStr ''Engagement'']),
           (''strategy'', JStr ''Audience retention focus'')]"

definition hooks_prompt :: "string \<Rightarrow> string" where
  \<open>hooks_prompt summaries =
     ''What'' @ [CHR 0x27] @ ''s the main emotional hook? Return JSON: {"primaryHook":"hook","secondaryHooks":["h1"],"strategy":"desc"}''
     @ newline @ newline @ ''Titles:'' @ newline @ summaries\<close>

definition analyzeHooks ::
  "(string \<Rightarrow> error + json) \<Rightarrow> llm \<Rightarrow> string list \<Rightarrow> Video list \<Rightarrow> json \<times> string list" where
  "analyzeHooks JSON_parse post calls videoData =
     (let titles = map (\<lambda>v. toLowerCase (VideoItem.title v)) videoData in
      if list_ex (\<lambda>t. str_includes t ''challenge'' \<or> str_includes t ''$'') titles
      then (hooks_spectacle, calls)
      else
        (let summaries = take 1500 (join newline (map VideoItem.title videoData));
             (response, calls') = callOllama post calls (hooks_prompt summaries);
             attempt =
               (case response of
                  Inl e \<Rightarrow> Inl e
                | Inr None \<Rightarrow> Inl (undefined_read ''match'')
                | Inr (Some r) \<Rightarrow>
                    (case match_lazy (CHR ''{'') (CHR ''}'') r of
                       None \<Rightarrow> Inr None
                     | Some jsonMatch \<Rightarrow>
                         (case JSON_parse jsonMatch of Inl e \<Rightarrow> Inl e | Inr data \<Rightarrow> Inr (Some data))))
         in case attempt of
              Inr (Some data) \<Rightarrow> (data, calls')
            | _ \<Rightarrow> (hooks_fallback, calls')))"

section \<open>Notions used in the statements\<close>

definition view_count :: "Video \<Rightarrow> nat" where
  \<comment> \<open>the reported view count, a missing counter read as 0\<close>
  "view_count v = (case viewCount (stats v) of None \<Rightarrow> 0 | Some n \<Rightarrow> n)"

definition comment_count :: "Video \<Rightarrow> nat" where
  \<comment> \<open>the reported comment count, a missing counter read as 0\<close>
  "comment_count v = (case VideoStats.commentCount (stats v) of None \<Rightarrow> 0 | Some n \<Rightarrow> n)"

section \<open>Concrete inputs\<close>

definition epoch_date :: "string \<Rightarrow> number" where
  \<comment> \<open>\<open>new Date\<close> on the two dates used below, any other string read as an invalid date\<close>
  "epoch_date s = (if s = ''2024-01-01T00:00:00Z'' then Fin 1704067200000
                   else if s = ''2024-01-08T00:00:00Z'' then Fin 1704672000000 else NaN)"

definition mk_video :: "string \<Rightarrow> string \<Rightarrow> counter \<Rightarrow> counter \<Rightarrow> counter \<Rightarrow> Comment list \<Rightarrow> Video" where
  "mk_video t day vc lc cc cs =
     \<lparr> videoId = ''v'', VideoItem.title = t, description = '''', VideoItem.publishedAt = day,
       thumbnails = JNull, transcript = None, Video.comments = cs,
       stats = \<lparr> viewCount = vc, VideoStats.likeCount = lc, VideoStats.commentCount = cc,
                 duration = ''PT5M'' \<rparr> \<rparr>"

definition no_channel_stats :: ChannelStats where
  "no_channel_stats =
     \<lparr> ChannelStats.subscriberCount = None, ChannelStats.totalViews = None, totalVideos = None,
       channelName = ''c'', channelDescription = '''', ChannelStats.publishedAt = ''2020-01-01T00:00:00Z'' \<rparr>"

definition mk_dataset :: "Video list \<Rightarrow> ChannelDataset" where
  "mk_dataset vs =
     \<lparr> channelId = ''UC1'', channelHandle = ''@c'', channelStats = no_channel_stats,
       videos = vs, totalVideosAnalyzed = length vs,
       ChannelDataset.totalComments = foldl (\<lambda>sum v. sum + length (Video.comments v)) 0 vs \<rparr>"

definition single_video :: Video where
  \<comment> \<open>one video with 100 views\<close>
  "single_video = mk_video ''Launch'' ''2024-01-01T00:00:00Z'' (Some 100) (Some 10) (Some 2) []"

definition hidden_likes_video :: Video where
  \<comment> \<open>100 views, the like counter omitted by the provider\<close>
  "hidden_likes_video = mk_video ''Launch'' ''2024-01-01T00:00:00Z'' (Some 100) None (Some 2) []"

definition three_videos :: "Video list" where
  "three_videos = [mk_video ''a'' ''2024-01-08T00:00:00Z'' (Some 100) (Some 1) None [],
                   mk_video ''b'' ''2024-01-01T00:00:00Z'' (Some 300) (Some 2) None [],
                   mk_video ''c'' ''2024-01-01T00:00:00Z'' (Some 300) (Some 3) None []]"

definition challenge_video :: Video where
  "challenge_video = mk_video ''Ice Bucket CHALLENGE'' ''2024-01-01T00:00:00Z'' (Some 5) None None []"

definition item1 :: VideoItem where
  "item1 = \<lparr> videoId = ''v1'', VideoItem.title = ''First look'', description = '''',
             VideoItem.publishedAt = ''2024-01-08T00:00:00Z'', thumbnails = JNull \<rparr>"

definition item2 :: VideoItem where
  "item2 = \<lparr> videoId = ''v2'', VideoItem.title = ''Second look'', description = '''',
             VideoItem.publishedAt = ''2024-01-01T00:00:00Z'', thumbnails = JNull \<rparr>"

definition a_comment :: Comment where
  "a_comment = \<lparr> text' = ''nice'', Comment.likeCount = 0, author = ''a'',
                 Comment.publishedAt = ''2024-01-09T00:00:00Z'' \<rparr>"

definition stats_with :: "nat \<Rightarrow> VideoStats" where
  "stats_with cc = \<lparr> viewCount = Some 1000, VideoStats.likeCount = Some 10,
                     VideoStats.commentCount = Some cc, duration = ''PT5M'' \<rparr>"

text \<open>
  A provider with two videos: it lists \<open>c1\<close> and \<open>c2\<close> comments for them and reports the
  comment counts \<open>n1\<close> and \<open>n2\<close>. \<open>two_dataset\<close> is the dataset collected from it.
\<close>

definition two_videos :: "nat \<Rightarrow> nat \<Rightarrow> nat \<Rightarrow> nat \<Rightarrow> Provider" where
  "two_videos c1 n1 c2 n2 =
     \<lparr> search_channel = (\<lambda>q. Inr [''UC1'']),
       search_videos = (\<lambda>c. Inr [item1, item2]),
       fetchTranscript = (\<lambda>v. Inr [''hello'', ''world'']),
       commentThreads = (\<lambda>v n. Inr (replicate (if v = ''v1'' then c1 else c2) a_comment)),
       videos_get = (\<lambda>v. Inr [stats_with (if v = ''v1'' then n1 else n2)]),
       channels_get = (\<lambda>c. Inr [no_channel_stats]) \<rparr>"

definition collected :: "VideoItem \<Rightarrow> nat \<Rightarrow> nat \<Rightarrow> Video" where
  "collected item c n =
     VideoItem.extend item (Video.fields (Some ''hello world'') (replicate c a_comment) (stats_with n))"

definition two_dataset :: "nat \<Rightarrow> nat \<Rightarrow> nat \<Rightarrow> nat \<Rightarrow> ChannelDataset" where
  "two_dataset c1 n1 c2 n2 =
     \<lparr> channelId = ''UC1'', channelHandle = ''@c'', channelStats = no_channel_stats,
       videos = [collected item1 c1 n1, collected item2 c2 n2],
       totalVideosAnalyzed = 2, ChannelDataset.totalComments = c1 + c2 \<rparr>"

text \<open>A provider with one video whose transcript and comment requests reject.\<close>

definition no_extras :: Provider where
  "no_extras =
     \<lparr> search_channel = (\<lambda>q. Inr [''UC1'']),
       search_videos = (\<lambda>c. Inr [item1]),
       fetchTranscript = (\<lambda>v. Inl (Error ''Transcript is disabled on this video'')),
       commentThreads = (\<lambda>v n. Inl (Error ''Request failed with status code 403'')),
       videos_get = (\<lambda>v. Inr [stats_with 0]),
       channels_get = (\<lambda>c. Inr [no_channel_stats]) \<rparr>"

text \<open>The same provider with the statistics request rejecting as well.\<close>

definition no_stats :: Provider where
  "no_stats = no_extras \<lparr> videos_get := (\<lambda>v. Inl (Error ''Request failed with status code 500'')) \<rparr>"

text \<open>A text-generation backend that is down, and a parser that rejects every text.\<close>

definition offline_model :: llm where
  "offline_model prompt = Inl (Error ''connect ECONNREFUSED 127.0.0.1:11434'')"

definition no_parse :: "string \<Rightarrow> error + json" where
  "no_parse s = Inl (Error ''Unexpected token'')"

section \<open>MetricsEngine: facts\<close>

subsection \<open>Counters and sums\<close>

lemma parseInt_orZero_view:
  "parseInt (orZero (viewCount (stats v))) = Fin (of_nat (view_count v))"
  by (simp add: parseInt_def orZero_def view_count_def split: option.splits)

lemma parseInt_orZero_comment:
  "parseInt (orZero (VideoStats.commentCount (stats v))) = Fin (of_nat (comment_count v))"
  by (simp add: parseInt_def orZero_def comment_count_def split: option.splits)

lemma foldl_num_add:
  "foldl (\<lambda>sum v. num_add sum (Fin (of_nat (f v)))) (Fin (of_nat a)) xs
   = Fin (of_nat (a + sum_list (map f xs)))"
  by (induction xs arbitrary: a) (simp_all add: add.assoc flip: of_nat_add)

lemma foldl_num_add0:
  "foldl (\<lambda>sum v. num_add sum (Fin (of_nat (f v)))) (Fin 0) xs = Fin (of_nat (sum_list (map f xs)))"
  using foldl_num_add[of f 0 xs] by simp

lemma num_sub_NaN: "num_sub NaN y = NaN"
  by (simp add: num_sub_def)

lemma toFixed_NaN: "toFixed f NaN = ''NaN''"
  by (simp add: toFixed_def)

lemma parseFloat_0 [simp]: "parseFloat ''0'' = Fin 0"
  by (simp add: parseFloat_def strip_sign_def is_space_def is_digit_def digits_val_def
        digit_val_def parse_exponent_def)

lemma parseFloat_NaN [simp]: "parseFloat ''NaN'' = NaN"
  by (simp add: parseFloat_def strip_sign_def is_space_def is_digit_def)

lemma num_sub_self_not_pos: "0 < c \<Longrightarrow> \<not> num_gt (num_div (num_sub x x) (Fin c)) (Fin 0)"
  by (cases x) (simp_all add: num_sub_def)

lemma js_sort_single: "js_sort cmp [x] = [x]"
  by (simp add: js_sort_def)

subsection \<open>The best video\<close>

lemma reduce_best_eq:
  "reduce_best best current = (if view_count best < view_count current then current else best)"
  by (simp add: reduce_best_def parseInt_orZero_view)

text \<open>The reduction keeps the first index of maximal view count: an invariant of the fold,
  proved by induction on the list from its end.\<close>

lemma foldl_reduce_best:
  assumes "xs \<noteq> []"
  shows "\<exists>i<length xs. foldl reduce_best (hd xs) xs = xs ! i
            \<and> (\<forall>j<length xs. view_count (xs ! j) \<le> view_count (xs ! i))
            \<and> (\<forall>j<i. view_count (xs ! j) < view_count (xs ! i))"
  using assms
proof (induction xs rule: rev_nonempty_induct)
  case (single x)
  then show ?case by (simp add: reduce_best_eq)
next
  case (snoc x xs)
  then obtain i where i: "i < length xs" "foldl reduce_best (hd xs) xs = xs ! i"
      "\<forall>j<length xs. view_count (xs ! j) \<le> view_count (xs ! i)"
      "\<forall>j<i. view_count (xs ! j) < view_count (xs ! i)"
    by blast
  show ?case
  proof (cases "view_count (xs ! i) < view_count x")
    case True
    have "foldl reduce_best (hd (xs @ [x])) (xs @ [x]) = (xs @ [x]) ! length xs"
      using snoc.hyps i(2) True by (simp add: reduce_best_eq)
    moreover have "\<forall>j<length (xs @ [x]). view_count ((xs @ [x]) ! j) \<le> view_count ((xs @ [x]) ! length xs)"
      using i(3) True by (auto simp: nth_append less_Suc_eq intro: order.trans less_imp_le)
    moreover have "\<forall>j<length xs. view_count ((xs @ [x]) ! j) < view_count ((xs @ [x]) ! length xs)"
      using i(3) True by (auto simp: nth_append intro: le_less_trans)
    ultimately show ?thesis
      by (intro exI[of _ "length xs"]) simp
  next
    case False
    have "foldl reduce_best (hd (xs @ [x])) (xs @ [x]) = (xs @ [x]) ! i"
      using snoc.hyps i(1,2) False by (simp add: reduce_best_eq nth_append)
    moreover have "\<forall>j<length (xs @ [x]). view_count ((xs @ [x]) ! j) \<le> view_count ((xs @ [x]) ! i)"
      using i(1,3) False by (auto simp: nth_append less_Suc_eq)
    moreover have "\<forall>j<i. view_count ((xs @ [x]) ! j) < view_count ((xs @ [x]) ! i)"
      using i(1,4) by (auto simp: nth_append)
    ultimately show ?thesis
      using i(1) by (intro exI[of _ i]) simp
  qed
qed

lemma bestVideo_first_max:
  assumes "vs \<noteq> []"
  shows "\<exists>i<length vs. bestVideo vs = Some (vs ! i)
            \<and> (\<forall>j<length vs. view_count (vs ! j) \<le> view_count (vs ! i))
            \<and> (\<forall>j<i. view_count (vs ! j) < view_count (vs ! i))"
proof -
  from assms obtain v0 rest where vs: "vs = v0 # rest" by (cases vs) auto
  have "bestVideo vs = Some (foldl reduce_best (hd vs) vs)"
    by (simp add: bestVideo_def vs)
  with foldl_reduce_best[OF assms] show ?thesis by auto
qed

lemma calc_Inr:
  "bestVideo (ChannelDataset.videos d) = Some b \<Longrightarrow>
   \<exists>m. calculateEnhancedMetrics newDate d = Inr m \<and>
       bestPerformingVideo m =
         \<lparr> BestPerformingVideo.title = VideoItem.title b, views = viewCount (stats b),
           likes = VideoStats.likeCount (stats b) \<rparr>"
  by (simp add: calculateEnhancedMetrics_def Let_def)

lemma calc_nonempty:
  assumes "ChannelDataset.videos d \<noteq> []"
  shows "\<exists>m. calculateEnhancedMetrics newDate d = Inr m"
proof -
  from assms obtain b where "bestVideo (ChannelDataset.videos d) = Some b"
    by (cases "ChannelDataset.videos d") (simp_all add: bestVideo_def)
  then show ?thesis using calc_Inr by blast
qed

subsection \<open>A dataset with one video\<close>

lemma single_video_metrics:
  assumes "ChannelDataset.videos d = [v]"
  shows "\<exists>m. calculateEnhancedMetrics newDate d = Inr m \<and> uploadFrequency m = Fin 0 \<and>
             viewsTrend m = (if 0 < view_count v then NaN else Fin 0)"
  by (simp add: calculateEnhancedMetrics_def assms Let_def bestVideo_def js_sort_single date_at_def
        num_sub_self_not_pos of_length_def parseInt_orZero_view num_sub_NaN toFixed_NaN)

subsection \<open>The comment fields\<close>

lemma metrics_comment_fields:
  assumes "calculateEnhancedMetrics newDate d = Inr m"
  shows "commentsProcessed m = ChannelDataset.totalComments d"
    and "Metrics.totalComments m = Fin (of_nat (sum_list (map comment_count (videos d))))"
    and "avgComments m = Math_round (num_div (Metrics.totalComments m) (of_length (videos d)))"
    and "commentRate m = parseFloat (if num_gt (Metrics.totalViews m) (Fin 0)
            then toFixed 2 (num_mul (num_div (Metrics.totalComments m) (Metrics.totalViews m)) (Fin 100))
            else ''0.00'')"
  using assms
  by (auto simp: calculateEnhancedMetrics_def Let_def parseInt_orZero_comment foldl_num_add0
           split: option.splits)

lemma sum_list_strict:
  assumes "\<forall>v\<in>set vs. (f v :: nat) \<le> g v" and "w \<in> set vs" and "f w < g w"
  shows "sum_list (map f vs) < sum_list (map g vs)"
  using assms
proof (induction vs)
  case Nil
  then show ?case by simp
next
  case (Cons a vs)
  have le: "sum_list (map f vs) \<le> sum_list (map g vs)"
    using Cons.prems(1) by (intro sum_list_mono) simp
  show ?case
  proof (cases "w = a")
    case True
    then show ?thesis using Cons.prems(3) le by simp
  next
    case False
    then have "sum_list (map f vs) < sum_list (map g vs)"
      using Cons by auto
    moreover have "f a \<le> g a" using Cons.prems(1) by simp
    ultimately show ?thesis by simp
  qed
qed

subsection \<open>The breakdown as a stable sort by key\<close>

lemma views_breakdown_entry:
  "VideoBreakdownEntry.views (breakdown_entry v) = Fin (of_nat (view_count v))"
  by (simp add: breakdown_entry_def parseInt_orZero_view)

lemma js_insert_map:
  assumes "\<And>x. g (f x) = Fin (of_nat (k x))"
  shows "js_insert (\<lambda>a b. num_sub (g b) (g a)) (f x) (map f ys)
         = map f (insort_key (\<lambda>x. - int (k x)) x ys)"
  by (induction ys) (auto simp: assms num_sub_def)

lemma js_sort_map:
  assumes "\<And>x. g (f x) = Fin (of_nat (k x))"
  shows "js_sort (\<lambda>a b. num_sub (g b) (g a)) (map f xs) = map f (sort_key (\<lambda>x. - int (k x)) xs)"
proof (induction xs)
  case Nil
  then show ?case by (simp add: js_sort_def)
next
  case (Cons x xs)
  have "js_sort (\<lambda>a b. num_sub (g b) (g a)) (map f (x # xs))
        = js_insert (\<lambda>a b. num_sub (g b) (g a)) (f x) (js_sort (\<lambda>a b. num_sub (g b) (g a)) (map f xs))"
    by (simp add: js_sort_def)
  also have "\<dots> = js_insert (\<lambda>a b. num_sub (g b) (g a)) (f x) (map f (sort_key (\<lambda>x. - int (k x)) xs))"
    by (simp only: Cons.IH)
  also have "\<dots> = map f (insort_key (\<lambda>x. - int (k x)) x (sort_key (\<lambda>x. - int (k x)) xs))"
    by (rule js_insert_map) (rule assms)
  finally show ?case by simp
qed

lemma getVideoBreakdown_sort_key:
  "getVideoBreakdown vs = map breakdown_entry (sort_key (\<lambda>v. - int (view_count v)) vs)"
  unfolding getVideoBreakdown_def
  by (rule js_sort_map) (rule views_breakdown_entry)

lemma breakdown_sorted:
  "sorted_wrt (\<lambda>a b. num_gt (VideoBreakdownEntry.views a) (VideoBreakdownEntry.views b)
                      \<or> VideoBreakdownEntry.views a = VideoBreakdownEntry.views b)
              (getVideoBreakdown vs)"
proof -
  let ?h = "\<lambda>v. - int (view_count v)"
  have "sorted (map ?h (sort_key ?h vs))" by (rule sorted_sort_key)
  then have "sorted_wrt (\<lambda>x y. ?h x \<le> ?h y) (sort_key ?h vs)"
    by (simp only: sorted_map)
  then have "sorted_wrt (\<lambda>a b. num_gt (VideoBreakdownEntry.views a) (VideoBreakdownEntry.views b)
                      \<or> VideoBreakdownEntry.views a = VideoBreakdownEntry.views b)
              (map breakdown_entry (sort_key ?h vs))"
    by (rule sorted_wrt_map_mono) (auto simp: views_breakdown_entry)
  then show ?thesis by (simp only: getVideoBreakdown_sort_key)
qed

lemma breakdown_stable:
  "filter (\<lambda>e. VideoBreakdownEntry.views e = k) (getVideoBreakdown vs)
   = filter (\<lambda>e. VideoBreakdownEntry.views e = k) (map breakdown_entry vs)"
proof -
  let ?h = "\<lambda>v. - int (view_count v)"
  let ?P = "\<lambda>v. Fin (of_nat (view_count v)) = k"
  have P: "filter ?P (sort_key ?h vs) = filter ?P vs"
  proof (cases "\<exists>n. k = Fin (of_nat n)")
    case True
    then obtain n where k: "k = Fin (of_nat n)" by blast
    have "?P = (\<lambda>v. ?h v = - int n)" by (auto simp: k)
    then show ?thesis using sort_key_stable[of ?h "- int n" vs] by simp
  next
    case False
    then have "\<And>v. \<not> ?P v" by metis
    then show ?thesis by simp
  qed
  have "filter (\<lambda>e. VideoBreakdownEntry.views e = k) (getVideoBreakdown vs)
        = map breakdown_entry (filter ?P (sort_key ?h vs))"
    by (simp add: getVideoBreakdown_sort_key filter_map o_def views_breakdown_entry)
  also have "\<dots> = map breakdown_entry (filter ?P vs)" by (simp only: P)
  also have "\<dots> = filter (\<lambda>e. VideoBreakdownEntry.views e = k) (map breakdown_entry vs)"
    by (simp add: filter_map o_def views_breakdown_entry)
  finally show ?thesis .
qed

section \<open>MetricsEngine: the claims\<close>

text \<open>
  C1 (as the code has it). For every dataset with zero videos \<open>calculateEnhancedMetrics\<close>
  produces no Metrics value: it fails with the TypeError of reading \<open>title\<close> of the
  undefined best video.
\<close>

theorem zero_videos_TypeError:
  assumes "ChannelDataset.videos d = []"
  shows "calculateEnhancedMetrics newDate d = Inl (undefined_read ''title'')"
  using assms by (simp add: calculateEnhancedMetrics_def Let_def bestVideo_def)

theorem zero_videos_TypeError_witness:
  "ChannelDataset.videos (mk_dataset []) = [] \<and>
   calculateEnhancedMetrics epoch_date (mk_dataset []) = Inl (undefined_read ''title'')"
proof -
  have h: "ChannelDataset.videos (mk_dataset []) = []" by (simp add: mk_dataset_def)
  from zero_videos_TypeError[OF h, of epoch_date] h show ?thesis by simp
qed

text \<open>
  C1 as stated fails: on the empty dataset the error is not \<open>InsufficientData\<close>.
\<close>

theorem zero_videos_not_InsufficientData:
  "calculateEnhancedMetrics epoch_date (mk_dataset []) \<noteq> Inl InsufficientData"
  by (simp add: calculateEnhancedMetrics_def mk_dataset_def Let_def bestVideo_def undefined_read_def)

text \<open>
  C2, the code at a dataset with one video of 100 views: \<open>uploadFrequency\<close> is 0, but
  \<open>viewsTrend\<close> is NaN and not 0. The recent half is empty, its average is 0/0, and the
  older half is the video itself, so that the guard on a zero older average does not apply.
\<close>

theorem single_video_viewsTrend_NaN:
  "map_sum id (\<lambda>m. (uploadFrequency m, viewsTrend m))
     (calculateEnhancedMetrics epoch_date (mk_dataset [single_video])) = Inr (Fin 0, NaN)"
proof -
  have "ChannelDataset.videos (mk_dataset [single_video]) = [single_video]"
    by (simp add: mk_dataset_def)
  from single_video_metrics[OF this, of epoch_date]
  obtain m where "calculateEnhancedMetrics epoch_date (mk_dataset [single_video]) = Inr m"
    and "uploadFrequency m = Fin 0"
    and "viewsTrend m = (if 0 < view_count single_video then NaN else Fin 0)"
    by blast
  moreover have "view_count single_video = 100"
    by (simp add: single_video_def mk_video_def view_count_def)
  ultimately show ?thesis by simp
qed

text \<open>
  C3, the code at a video with 100 views whose like counter is missing: the entry's
  \<open>likes\<close> is 0 (the missing counter is read as 0 there), but its \<open>engagementRate\<close> is
  the string \<open>NaN\<close>, since that expression parses the missing counter without the default.
\<close>

theorem hidden_likes_engagementRate_NaN:
  "map (\<lambda>e. (VideoBreakdownEntry.views e, VideoBreakdownEntry.likes e, VideoBreakdownEntry.engagementRate e))
     (getVideoBreakdown [hidden_likes_video]) = [(Fin 100, Fin 0, ''NaN'')]"
  by (simp add: getVideoBreakdown_def js_sort_def breakdown_entry_def hidden_likes_video_def
        mk_video_def parseInt_def orZero_def toFixed_def)

text \<open>
  C7. For every video list the breakdown is sorted by \<open>views\<close>, descending: every entry
  has more views than, or as many as, each entry behind it. It is stable: for each view
  count \<open>k\<close>, the entries with \<open>k\<close> views stand in the order of the input list.
\<close>

theorem getVideoBreakdown_sorted_stable:
  "sorted_wrt (\<lambda>a b. num_gt (VideoBreakdownEntry.views a) (VideoBreakdownEntry.views b)
                      \<or> VideoBreakdownEntry.views a = VideoBreakdownEntry.views b)
              (getVideoBreakdown vs) \<and>
   filter (\<lambda>e. VideoBreakdownEntry.views e = k) (getVideoBreakdown vs)
     = filter (\<lambda>e. VideoBreakdownEntry.views e = k) (map breakdown_entry vs)"
  using breakdown_sorted[of vs] breakdown_stable[of k vs] by simp

text \<open>
  C8. For every non-empty video list, \<open>bestPerformingVideo\<close> is taken from the video at
  an index \<open>i\<close> whose view count (a missing counter read as 0) is maximal over the list and
  strictly larger than that of every video before it: the earliest video of maximal count.
\<close>

theorem bestPerformingVideo_first_max:
  assumes "ChannelDataset.videos d \<noteq> []"
  shows "\<exists>i<length (videos d).
           (\<forall>j<length (videos d). view_count (videos d ! j) \<le> view_count (videos d ! i)) \<and>
           (\<forall>j<i. view_count (videos d ! j) < view_count (videos d ! i)) \<and>
           (\<exists>m. calculateEnhancedMetrics newDate d = Inr m \<and>
                bestPerformingVideo m =
                  \<lparr> BestPerformingVideo.title = VideoItem.title (videos d ! i),
                    views = viewCount (stats (videos d ! i)),
                    likes = VideoStats.likeCount (stats (videos d ! i)) \<rparr>)"
proof -
  from bestVideo_first_max[OF assms] obtain i where i: "i < length (videos d)"
      "bestVideo (videos d) = Some (videos d ! i)"
      "\<forall>j<length (videos d). view_count (videos d ! j) \<le> view_count (videos d ! i)"
      "\<forall>j<i. view_count (videos d ! j) < view_count (videos d ! i)"
    by blast
  from calc_Inr[OF i(2), of newDate] i(1,3,4) show ?thesis by blast
qed

text \<open>Of the videos with 100, 300 and 300 views, the second one is reported.\<close>

theorem bestPerformingVideo_first_max_witness:
  "ChannelDataset.videos (mk_dataset three_videos) \<noteq> [] \<and>
   map_sum id bestPerformingVideo (calculateEnhancedMetrics epoch_date (mk_dataset three_videos))
   = Inr \<lparr> BestPerformingVideo.title = ''b'', views = Some 300, likes = Some 2 \<rparr>"
proof -
  let ?vs = "videos (mk_dataset three_videos)"
  have vs: "?vs = three_videos" by (simp add: mk_dataset_def)
  have ne: "ChannelDataset.videos (mk_dataset three_videos) \<noteq> []"
    by (simp add: mk_dataset_def three_videos_def)
  have vc: "view_count (three_videos ! 0) = 100" "view_count (three_videos ! 1) = 300"
      "view_count (three_videos ! 2) = 300" "length three_videos = 3"
    by (simp_all add: three_videos_def mk_video_def view_count_def)
  from bestPerformingVideo_first_max[OF ne, of epoch_date] obtain i m where
      i: "i < 3" "\<forall>j<3. view_count (three_videos ! j) \<le> view_count (three_videos ! i)"
         "\<forall>j<i. view_count (three_videos ! j) < view_count (three_videos ! i)"
      and m: "calculateEnhancedMetrics epoch_date (mk_dataset three_videos) = Inr m"
         "bestPerformingVideo m = \<lparr> BestPerformingVideo.title = VideoItem.title (three_videos ! i),
                    views = viewCount (stats (three_videos ! i)),
                    likes = VideoStats.likeCount (stats (three_videos ! i)) \<rparr>"
    unfolding vs vc(4) by blast
  have "i = 0 \<or> i = 1 \<or> i = 2" using i(1) by arith
  then have "i = 1"
  proof (elim disjE)
    assume "i = 0"
    with i(2) vc show ?thesis by (auto dest: spec[of _ 1])
  next
    assume "i = 1" then show ?thesis .
  next
    assume "i = 2"
    with i(3) vc show ?thesis by (auto dest: spec[of _ 1])
  qed
  with m ne show ?thesis by (simp add: three_videos_def mk_video_def)
qed

section \<open>RawDataCollector: facts\<close>

lemma collect_video_fields [simp]:
  "transcript (VideoItem.extend v (Video.fields t c s)) = t"
  "Video.comments (VideoItem.extend v (Video.fields t c s)) = c"
  "stats (VideoItem.extend v (Video.fields t c s)) = s"
  "VideoItem.title (VideoItem.extend v (Video.fields t c s)) = VideoItem.title v"
  by (simp_all add: VideoItem.defs Video.defs)

lemma foldl_add_length:
  "foldl (\<lambda>sum v. sum + f v) a xs = a + sum_list (map f xs)" for a :: nat
  by (induction xs arbitrary: a) simp_all

lemma promise_all_map_Inr: "promise_all (map Inr xs) = Inr xs"
  by (induction xs) simp_all

lemma promise_all_Inl: "r \<in> set rs \<Longrightarrow> isl r \<Longrightarrow> \<exists>e. promise_all rs = Inl e \<and> Inl e \<in> set rs"
  by (induction rs) (auto split: sum.splits)

lemma getVideoStats_Inl:
  "getVideoStats p vid = Inl e \<Longrightarrow> \<exists>m. e = Error (''Error fetching video stats: '' @ m)"
  by (auto simp: getVideoStats_def catch_rethrow_def split: sum.splits list.splits)

lemma collect_video_Inl:
  "collect_video p v = Inl e \<Longrightarrow> \<exists>m. e = Error (''Error fetching video stats: '' @ m)"
  by (auto simp: collect_video_def Let_def split: sum.splits dest: getVideoStats_Inl)

lemma collect_video_Inr:
  "getVideoStats p (videoId v) = Inr s \<Longrightarrow>
   collect_video p v = Inr (VideoItem.extend v (Video.fields (getTranscript p (videoId v))
                                                  (getTopComments p (videoId v) 50) s))"
  by (simp add: collect_video_def Let_def)

lemma collect_video_isl: "isl (collect_video p v) = isl (getVideoStats p (videoId v))"
  by (simp add: collect_video_def Let_def split: sum.splits)

lemma gather_Inr:
  assumes "gatherChannelIntelligence p h = Inr d"
  shows "ChannelDataset.totalComments d = sum_list (map (\<lambda>v. length (Video.comments v)) (videos d))"
    and "totalVideosAnalyzed d = length (videos d)"
  using assms
  by (auto simp: gatherChannelIntelligence_def catch_rethrow_def foldl_add_length split: sum.splits)

lemma gather_stats_failure:
  assumes "getChannelId p h = Inr cid" and "getChannelStats p cid = Inr cs"
    and "getLatestVideos p cid = Inr items"
    and "v \<in> set items" and "isl (getVideoStats p (videoId v))"
  shows "\<exists>m. gatherChannelIntelligence p h
            = Inl (Error (''Intelligence gathering failed: Error fetching video stats: '' @ m))"
proof -
  have "collect_video p v \<in> set (map (collect_video p) items)" using assms(4) by simp
  moreover have "isl (collect_video p v)" using assms(5) by (simp add: collect_video_isl)
  ultimately obtain e where e: "promise_all (map (collect_video p) items) = Inl e"
      "Inl e \<in> set (map (collect_video p) items)"
    using promise_all_Inl by blast
  from e(2) obtain w where "collect_video p w = Inl e" by auto
  then obtain m where m: "e = Error (''Error fetching video stats: '' @ m)"
    using collect_video_Inl by blast
  show ?thesis
    by (rule exI[of _ m]) (simp add: gatherChannelIntelligence_def assms(1-3) e(1) m catch_rethrow_def)
qed

lemma gather_absorbs:
  assumes "getChannelId p h = Inr cid" and "getChannelStats p cid = Inr cs"
    and "getLatestVideos p cid = Inr items"
    and ok: "\<forall>v\<in>set items. \<exists>s. getVideoStats p (videoId v) = Inr s"
  shows "\<exists>d. gatherChannelIntelligence p h = Inr d \<and> length (videos d) = length items \<and>
           (\<forall>i<length items.
              (isl (fetchTranscript p (videoId (items ! i))) \<longrightarrow> transcript (videos d ! i) = None) \<and>
              (isl (commentThreads p (videoId (items ! i)) 50) \<longrightarrow> Video.comments (videos d ! i) = []))"
proof -
  define mk where "mk = (\<lambda>v. VideoItem.extend v (Video.fields (getTranscript p (videoId v))
                         (getTopComments p (videoId v) 50) (projr (getVideoStats p (videoId v)))))"
  have "map (collect_video p) items = map Inr (map mk items)"
    using ok by (auto simp: mk_def collect_video_Inr)
  then have pa: "promise_all (map (collect_video p) items) = Inr (map mk items)"
    by (simp only: promise_all_map_Inr)
  define d where "d = \<lparr> channelId = cid, channelHandle = h, channelStats = cs, videos = map mk items,
     totalVideosAnalyzed = length (map mk items),
     ChannelDataset.totalComments = foldl (\<lambda>sum v. sum + length (Video.comments v)) 0 (map mk items) \<rparr>"
  have g: "gatherChannelIntelligence p h = Inr d"
    by (simp add: gatherChannelIntelligence_def assms(1-3) pa catch_rethrow_def d_def)
  have "\<forall>i<length items.
              (isl (fetchTranscript p (videoId (items ! i))) \<longrightarrow> transcript (videos d ! i) = None) \<and>
              (isl (commentThreads p (videoId (items ! i)) 50) \<longrightarrow> Video.comments (videos d ! i) = [])"
    by (auto simp: d_def mk_def getTranscript_def getTopComments_def split: sum.splits)
  moreover have "length (videos d) = length items" by (simp add: d_def)
  ultimately show ?thesis using g by blast
qed

lemma gather_two_videos:
  "gatherChannelIntelligence (two_videos c1 n1 c2 n2) ''@c'' = Inr (two_dataset c1 n1 c2 n2)"
  by (simp add: gatherChannelIntelligence_def getChannelId_def getChannelStats_def getLatestVideos_def
        getVideoStats_def catch_rethrow_def two_videos_def collect_video_def getTopComments_def
        getTranscript_def item1_def item2_def two_dataset_def collected_def remove_first_def)

section \<open>RawDataCollector: the claims\<close>

text \<open>
  C4. Take a collection whose channel lookup, channel statistics and video listing succeed.
  If every statistics fetch succeeds, the collection returns a dataset with one video per
  listed item, in which a video whose transcript fetch failed has \<open>transcript = null\<close>
  and a video whose comment fetch failed has an empty comment list. If the statistics
  fetch of some listed video fails, the collection returns no dataset: it fails with the
  error of that fetch, wrapped by the collector.
\<close>

theorem collection_failure_handling:
  assumes "getChannelId p h = Inr cid" and "getChannelStats p cid = Inr cs"
    and "getLatestVideos p cid = Inr items"
    and "\<forall>v\<in>set items. \<exists>s. getVideoStats p (videoId v) = Inr s"
    and "getChannelId q g = Inr cid'" and "getChannelStats q cid' = Inr cs'"
    and "getLatestVideos q cid' = Inr items'"
    and "\<exists>v\<in>set items'. isl (getVideoStats q (videoId v))"
  shows "(\<exists>d. gatherChannelIntelligence p h = Inr d \<and> length (videos d) = length items \<and>
           (\<forall>i<length items.
              (isl (fetchTranscript p (videoId (items ! i))) \<longrightarrow> transcript (videos d ! i) = None) \<and>
              (isl (commentThreads p (videoId (items ! i)) 50) \<longrightarrow> Video.comments (videos d ! i) = []))) \<and>
         (\<exists>m. gatherChannelIntelligence q g
            = Inl (Error (''Intelligence gathering failed: Error fetching video stats: '' @ m)))"
  using gather_absorbs[OF assms(1-4)] gather_stats_failure[OF assms(5-7)] assms(8) by blast

text \<open>With \<open>no_extras\<close> the one video is collected without transcript and comments; with
  \<open>no_stats\<close> the collection fails.\<close>

theorem collection_failure_handling_witness:
  "(\<exists>d. gatherChannelIntelligence no_extras ''@c'' = Inr d \<and> length (videos d) = 1 \<and>
        transcript (videos d ! 0) = None \<and> Video.comments (videos d ! 0) = []) \<and>
   (\<exists>m. gatherChannelIntelligence no_stats ''@c''
        = Inl (Error (''Intelligence gathering failed: Error fetching video stats: '' @ m)))"
proof -
  have a: "getChannelId no_extras ''@c'' = Inr ''UC1''"
      "getChannelStats no_extras ''UC1'' = Inr no_channel_stats"
      "getLatestVideos no_extras ''UC1'' = Inr [item1]"
      "\<forall>v\<in>set [item1]. \<exists>s. getVideoStats no_extras (videoId v) = Inr s"
    by (simp_all add: getChannelId_def getChannelStats_def getLatestVideos_def getVideoStats_def
          catch_rethrow_def no_extras_def)
  have b: "getChannelId no_stats ''@c'' = Inr ''UC1''"
      "getChannelStats no_stats ''UC1'' = Inr no_channel_stats"
      "getLatestVideos no_stats ''UC1'' = Inr [item1]"
      "\<exists>v\<in>set [item1]. isl (getVideoStats no_stats (videoId v))"
    by (simp_all add: getChannelId_def getChannelStats_def getLatestVideos_def getVideoStats_def
          catch_rethrow_def no_stats_def no_extras_def)
  have f: "isl (fetchTranscript no_extras (videoId ([item1] ! 0)))"
      "isl (commentThreads no_extras (videoId ([item1] ! 0)) 50)"
    by (simp_all add: no_extras_def)
  from collection_failure_handling[OF a b] f show ?thesis by auto
qed

text \<open>
  C9. Every dataset returned by the collection has \<open>totalComments\<close> equal to the sum of
  the lengths of its videos' comment lists and \<open>totalVideosAnalyzed\<close> equal to the length
  of its video list.
\<close>

theorem gather_totals_consistent:
  assumes "gatherChannelIntelligence p h = Inr d"
  shows "ChannelDataset.totalComments d = sum_list (map (\<lambda>v. length (Video.comments v)) (videos d)) \<and>
         totalVideosAnalyzed d = length (videos d)"
  using gather_Inr[OF assms] by simp

theorem gather_totals_consistent_witness:
  "gatherChannelIntelligence (two_videos 50 120 3 3) ''@c'' = Inr (two_dataset 50 120 3 3) \<and>
   ChannelDataset.totalComments (two_dataset 50 120 3 3) = 53 \<and>
   totalVideosAnalyzed (two_dataset 50 120 3 3) = 2"
proof -
  have g: "gatherChannelIntelligence (two_videos 50 120 3 3) ''@c'' = Inr (two_dataset 50 120 3 3)"
    by (rule gather_two_videos)
  have "sum_list (map (\<lambda>v. length (Video.comments v)) (videos (two_dataset 50 120 3 3))) = 53"
      "length (videos (two_dataset 50 120 3 3)) = 2"
    by (simp_all add: two_dataset_def collected_def)
  with gather_totals_consistent[OF g] g show ?thesis by simp
qed

text \<open>
  C10 (as the code has it). For a collected dataset and its Metrics, \<open>commentsProcessed\<close>
  is the dataset's \<open>totalComments\<close>, the number of comments listed, while
  \<open>totalComments\<close>, \<open>avgComments\<close> and \<open>commentRate\<close> come from the sum of the
  reported comment counts. The two fields differ when some video reports more than 50
  comments, provided no video lists more than 50 comments or more comments than it reports.
\<close>

theorem comment_fields_measure_different_quantities:
  assumes "gatherChannelIntelligence p h = Inr d"
    and "calculateEnhancedMetrics newDate d = Inr m"
  shows "commentsProcessed m = sum_list (map (\<lambda>v. length (Video.comments v)) (videos d)) \<and>
         Metrics.totalComments m = Fin (of_nat (sum_list (map comment_count (videos d)))) \<and>
         avgComments m = Math_round (num_div (Metrics.totalComments m) (of_length (videos d))) \<and>
         commentRate m = parseFloat (if num_gt (Metrics.totalViews m) (Fin 0)
            then toFixed 2 (num_mul (num_div (Metrics.totalComments m) (Metrics.totalViews m)) (Fin 100))
            else ''0.00'') \<and>
         ((\<forall>v\<in>set (videos d). length (Video.comments v) \<le> 50 \<and> length (Video.comments v) \<le> comment_count v) \<and>
          (\<exists>v\<in>set (videos d). 50 < comment_count v)
          \<longrightarrow> Fin (of_nat (commentsProcessed m)) \<noteq> Metrics.totalComments m)"
proof -
  have cp: "commentsProcessed m = sum_list (map (\<lambda>v. length (Video.comments v)) (videos d))"
    using metrics_comment_fields(1)[OF assms(2)] gather_Inr(1)[OF assms(1)] by simp
  have tc: "Metrics.totalComments m = Fin (of_nat (sum_list (map comment_count (videos d))))"
    by (rule metrics_comment_fields(2)[OF assms(2)])
  have "Fin (of_nat (commentsProcessed m)) \<noteq> Metrics.totalComments m"
    if a: "\<forall>v\<in>set (videos d). length (Video.comments v) \<le> 50 \<and> length (Video.comments v) \<le> comment_count v"
      and b: "\<exists>v\<in>set (videos d). 50 < comment_count v"
  proof -
    from b obtain w where w: "w \<in> set (videos d)" "50 < comment_count w" by blast
    then have "length (Video.comments w) < comment_count w" using a by fastforce
    then have "sum_list (map (\<lambda>v. length (Video.comments v)) (videos d)) < sum_list (map comment_count (videos d))"
      using a w(1) by (intro sum_list_strict[where w = w]) auto
    then show ?thesis by (simp add: cp tc)
  qed
  then show ?thesis
    using cp tc metrics_comment_fields(3,4)[OF assms(2)] by blast
qed

text \<open>Two videos listing 50 and 3 comments and reporting 120 and 3: 53 against 123.\<close>

theorem comment_fields_measure_different_quantities_witness:
  "gatherChannelIntelligence (two_videos 50 120 3 3) ''@c'' = Inr (two_dataset 50 120 3 3) \<and>
   map_sum id (\<lambda>m. (commentsProcessed m, Metrics.totalComments m, avgComments m,
                      Fin (of_nat (commentsProcessed m)) = Metrics.totalComments m))
     (calculateEnhancedMetrics epoch_date (two_dataset 50 120 3 3)) = Inr (53, Fin 123, Fin 62, False)"
proof -
  let ?d = "two_dataset 50 120 3 3"
  have g: "gatherChannelIntelligence (two_videos 50 120 3 3) ''@c'' = Inr ?d"
    by (rule gather_two_videos)
  have "ChannelDataset.videos ?d \<noteq> []" by (simp add: two_dataset_def)
  then obtain m where m: "calculateEnhancedMetrics epoch_date ?d = Inr m"
    using calc_nonempty by blast
  have h: "(\<forall>v\<in>set (videos ?d). length (Video.comments v) \<le> 50 \<and> length (Video.comments v) \<le> comment_count v) \<and>
          (\<exists>v\<in>set (videos ?d). 50 < comment_count v)"
    by (simp add: two_dataset_def collected_def comment_count_def stats_with_def)
  have s: "sum_list (map (\<lambda>v. length (Video.comments v)) (videos ?d)) = 53"
      "sum_list (map comment_count (videos ?d)) = 123" "of_length (videos ?d) = Fin 2"
    by (simp_all add: two_dataset_def collected_def comment_count_def stats_with_def of_length_def)
  from comment_fields_measure_different_quantities[OF g m] h s show ?thesis
    by (simp add: m g)
qed

text \<open>
  C10 as stated fails. The first video reports 51 comments and lists 50, the second
  reports 3 and lists 4: a video has more than 50 comments at the source, and both
  fields are 54.
\<close>

theorem comment_fields_equal_counterexample:
  "gatherChannelIntelligence (two_videos 50 51 4 3) ''@c'' = Inr (two_dataset 50 51 4 3) \<and>
   map (\<lambda>v. (length (Video.comments v), VideoStats.commentCount (stats v))) (videos (two_dataset 50 51 4 3))
     = [(50, Some 51), (4, Some 3)] \<and>
   map_sum id (\<lambda>m. (commentsProcessed m, Metrics.totalComments m))
     (calculateEnhancedMetrics epoch_date (two_dataset 50 51 4 3)) = Inr (54, Fin 54)"
proof -
  have "ChannelDataset.videos (two_dataset 50 51 4 3) \<noteq> []" by (simp add: two_dataset_def)
  then obtain m where m: "calculateEnhancedMetrics epoch_date (two_dataset 50 51 4 3) = Inr m"
    using calc_nonempty by blast
  have "commentsProcessed m = 54" "Metrics.totalComments m = Fin 54"
    using metrics_comment_fields(1,2)[OF m]
    by (simp_all add: two_dataset_def collected_def comment_count_def stats_with_def)
  then show ?thesis
    by (simp add: m gather_two_videos) (simp add: two_dataset_def collected_def stats_with_def)
qed

section \<open>TextAnalyzer: facts\<close>

lemma str_includes_sublist: "str_includes s t = sublist t s"
  by (induction s) (simp_all add: sublist_Cons_right)

lemma toLowerCase_dollar: "toLowerCase ''$'' = ''$''"
  by (simp add: toLowerCase_def toLower_def)

lemma toLowerCase_append: "toLowerCase (s @ t) = toLowerCase s @ toLowerCase t"
  by (simp add: toLowerCase_def)

section \<open>TextAnalyzer: the claims\<close>

text \<open>
  C5. For every input with fewer than 5 comments, also with no comment list at all,
  \<open>analyzeSentiment\<close> returns the fixed placeholder (three complaint items of medium and
  low frequency, \<open>mostRequestedFeature\<close> "More data needed") and sends no prompt: the list
  of prompts sent is unchanged, whatever the backend and the parser are.
\<close>

theorem analyzeSentiment_few_comments:
  assumes "case comments' of None \<Rightarrow> True | Some cs \<Rightarrow> length cs < 5"
  shows "analyzeSentiment JSON_parse ToNumber post calls comments' =
           (JObj [(''complaints'', JArr [complaint ''Limited engagement data'' ''medium'',
                                        complaint ''Low comment activity'' ''low'',
                                        complaint ''Check community settings'' ''low'']),
                  (''mostRequestedFeature'', JStr ''More data needed'')],
            calls)"
  using assms
  by (simp add: analyzeSentiment_def sentiment_insufficient_def split: option.splits)

text \<open>Four comments, with the backend down.\<close>

theorem analyzeSentiment_few_comments_witness:
  "length (replicate 4 a_comment) < 5 \<and>
   analyzeSentiment no_parse (\<lambda>j. NaN) offline_model [] (Some (replicate 4 a_comment)) =
     (sentiment_insufficient, [])"
proof -
  have h: "case Some (replicate 4 a_comment) of None \<Rightarrow> True | Some cs \<Rightarrow> length cs < 5"
    by simp
  from analyzeSentiment_few_comments[OF h, of no_parse "\<lambda>j. NaN" offline_model "[]"]
  show ?thesis by (simp add: sentiment_insufficient_def)
qed

text \<open>
  C6. For every video list in which some title has a part that is "challenge" up to the
  case of its letters, or the part "$", \<open>analyzeHooks\<close> returns the fixed
  "Entertainment & Spectacle" result and sends no prompt, whatever the backend and the
  parser are.
\<close>

theorem analyzeHooks_short_circuit:
  assumes "\<exists>v\<in>set videoData. \<exists>pre mid post.
             VideoItem.title v = pre @ mid @ post \<and> (toLowerCase mid = ''challenge'' \<or> mid = ''$'')"
  shows "analyzeHooks JSON_parse post' calls videoData =
           (JObj [(''primaryHook'', JStr ''Entertainment & Spectacle''),
                  (''secondaryHooks'', JArr [JStr ''FOMO'', JStr ''Curiosity'']),
                  (''strategy'', JStr ''Viral content with high production value'')],
            calls)"
proof -
  from assms obtain v pre mid post where v: "v \<in> set videoData"
      and t: "VideoItem.title v = pre @ mid @ post"
      and m: "toLowerCase mid = ''challenge'' \<or> mid = ''$''"
    by blast
  have low: "toLowerCase (VideoItem.title v) = toLowerCase pre @ toLowerCase mid @ toLowerCase post"
    by (simp add: t toLowerCase_append)
  have "toLowerCase mid = ''challenge'' \<or> toLowerCase mid = ''$''"
    using m toLowerCase_dollar by auto
  then have "sublist ''challenge'' (toLowerCase (VideoItem.title v))
             \<or> sublist ''$'' (toLowerCase (VideoItem.title v))"
    unfolding low by (metis sublist_appendI)
  then have "list_ex (\<lambda>t. str_includes t ''challenge'' \<or> str_includes t ''$'')
               (map (\<lambda>v. toLowerCase (VideoItem.title v)) videoData)"
    using v by (auto simp: list_ex_iff str_includes_sublist)
  then show ?thesis by (simp add: analyzeHooks_def hooks_spectacle_def)
qed

text \<open>The title "Ice Bucket CHALLENGE", with the backend down.\<close>

theorem analyzeHooks_short_circuit_witness:
  "VideoItem.title challenge_video = ''Ice Bucket '' @ ''CHALLENGE'' @ '''' \<and>
   toLowerCase ''CHALLENGE'' = ''challenge'' \<and>
   analyzeHooks no_parse offline_model [] [challenge_video] = (hooks_spectacle, [])"
proof -
  have t: "VideoItem.title challenge_video = ''Ice Bucket '' @ ''CHALLENGE'' @ ''''"
    by (simp add: challenge_video_def mk_video_def)
  have l: "toLowerCase ''CHALLENGE'' = ''challenge''"
    by (simp add: toLowerCase_def toLower_def)
  have h: "\<exists>v\<in>set [challenge_video]. \<exists>pre mid post.
             VideoItem.title v = pre @ mid @ post \<and> (toLowerCase mid = ''challenge'' \<or> mid = ''$'')"
    using t l by (metis list.set_intros(1))
  from analyzeHooks_short_circuit[OF h, of no_parse offline_model "[]"] t l
  show ?thesis by (simp add: hooks_spectacle_def)
qed

end
